theory Spec2Isabelle
  imports Complex_Main "HOL-Library.Log_Nat"
begin

section \<open>The arithmetic sequence generator of \<^verbatim>\<open>app.py\<close>\<close>

text \<open>
  The program reads a first term, a common difference and a number of terms, builds the
  sequence in \<^verbatim>\<open>generate_arithmetic_sequence\<close> and shows four metrics of it in
  \<^verbatim>\<open>main\<close>. Python's unbounded \<^verbatim>\<open>int\<close> is \<^typ>\<open>int\<close>, and an exception is a value
  \<open>Inl e\<close> of a sum type. The program is modelled twice. The first model takes the
  numbers to be real numbers (\<^typ>\<open>real\<close>): exact arithmetic without rounding, overflow,
  infinities or NaN. It serves the properties that do not depend on rounding. The second
  model computes in binary64, the format of Python's \<^verbatim>\<open>float\<close>, with every operation
  rounded to nearest, ties to even; it serves the properties that rounding decides. A
  third part runs the generator on an explicit store of list objects.
\<close>

subsection \<open>Python primitives used by the program\<close>

text \<open>
  The exceptions the modelled statements can raise: a list index out of range, an
  \<^verbatim>\<open>int\<close> too large to become a \<^verbatim>\<open>float\<close>, and a division by zero.
\<close>

datatype error = IndexError | OverflowError | ZeroDivisionError

text \<open>\<^verbatim>\<open>range(n)\<close>: the integers \<open>0, 1, ..., n - 1\<close>, none when \<open>n \<le> 0\<close>.\<close>

definition range_py :: "int \<Rightarrow> int list" where
  "range_py n = [0..n - 1]"

text \<open>\<^verbatim>\<open>len(xs)\<close>.\<close>

definition len_py :: "'a list \<Rightarrow> int" where
  "len_py xs = int (length xs)"

text \<open>
  \<^verbatim>\<open>xs[i]\<close>: an index from \<open>0\<close> to \<open>len - 1\<close> counts from the front, one from \<open>-len\<close>
  to \<open>-1\<close> counts from the back, any other raises \<^verbatim>\<open>IndexError\<close>.
\<close>

definition getitem :: "'a list \<Rightarrow> int \<Rightarrow> error + 'a" where
  "getitem xs i =
     (if 0 \<le> i \<and> i < len_py xs then Inr (xs ! nat i)
      else if - len_py xs \<le> i \<and> i < 0 then Inr (xs ! nat (len_py xs + i))
      else Inl IndexError)"

text \<open>\<^verbatim>\<open>sum(xs)\<close>: starts from \<open>0\<close> and adds the elements from left to right.\<close>

definition sum_py :: "real list \<Rightarrow> real" where
  "sum_py xs = foldl (+) 0 xs"

subsection \<open>\<^verbatim>\<open>generate_arithmetic_sequence\<close>\<close>

text \<open>
  \<^verbatim>\<open>
  sequence = []
  for i in range(num_terms):
      term = first_term + (i * common_difference)
      sequence.append(term)
  return sequence
  \<close>
  The loop runs over the list of indices; its state is the list built so far.
\<close>

fun generate_loop :: "real \<Rightarrow> real \<Rightarrow> int list \<Rightarrow> real list \<Rightarrow> real list" where
  "generate_loop first_term common_difference [] sequence = sequence"
| "generate_loop first_term common_difference (i # rest) sequence =
     (let term = first_term + (of_int i * common_difference)
      in generate_loop first_term common_difference rest (sequence @ [term]))"

definition generate_arithmetic_sequence :: "real \<Rightarrow> real \<Rightarrow> int \<Rightarrow> real list" where
  "generate_arithmetic_sequence first_term common_difference num_terms =
     generate_loop first_term common_difference (range_py num_terms) []"

subsection \<open>The statistics computed in \<^verbatim>\<open>main\<close>\<close>

text \<open>
  The four metrics of lines 124 to 136 of \<^verbatim>\<open>main\<close>, in the order the program computes
  them: \<^verbatim>\<open>sequence[0]\<close>, \<^verbatim>\<open>sequence[-1]\<close>, \<^verbatim>\<open>sum(sequence)\<close> and
  \<^verbatim>\<open>(len(sequence) / 2) * (sequence[0] + sequence[-1])\<close>. The division is Python's true
  division, so its result is a float whatever the length.
\<close>

record statistics =
  s_first :: real
  s_last :: real
  s_sum_direct :: real
  s_sum_formula :: real

definition sum_direct :: "real list \<Rightarrow> real" where
  "sum_direct sequence = sum_py sequence"

definition sum_formula :: "real list \<Rightarrow> error + real" where
  "sum_formula sequence =
     (case getitem sequence 0 of
        Inl e \<Rightarrow> Inl e
      | Inr x \<Rightarrow>
          (case getitem sequence (- 1) of
             Inl e \<Rightarrow> Inl e
           | Inr y \<Rightarrow> Inr ((of_int (len_py sequence) / 2) * (x + y))))"

definition compute_statistics :: "real list \<Rightarrow> error + statistics" where
  "compute_statistics sequence =
     (case getitem sequence 0 of
        Inl e \<Rightarrow> Inl e
      | Inr x \<Rightarrow>
          (case getitem sequence (- 1) of
             Inl e \<Rightarrow> Inl e
           | Inr y \<Rightarrow>
               (case sum_formula sequence of
                  Inl e \<Rightarrow> Inl e
                | Inr f \<Rightarrow>
                    Inr \<lparr>s_first = x, s_last = y,
                         s_sum_direct = sum_direct sequence, s_sum_formula = f\<rparr>)))"

subsection \<open>The control flow of \<^verbatim>\<open>main\<close>\<close>

text \<open>
  What \<^verbatim>\<open>main\<close> does with the three inputs, the rendering left out: it refuses a number
  of terms that is not positive (line 66) or exceeds 1000 (line 70) before the generator
  is called, and an exception raised inside the \<^verbatim>\<open>try\<close> block is caught and reported
  (line 151).
\<close>

datatype outcome =
    NotPositive
  | TooManyTerms
  | Rendered "real list" statistics
  | ErrorOccurred error

definition main :: "real \<Rightarrow> real \<Rightarrow> int \<Rightarrow> outcome" where
  "main first_term common_difference num_terms =
     (if num_terms \<le> 0 then NotPositive
      else if num_terms > 1000 then TooManyTerms
      else
        (let sequence = generate_arithmetic_sequence first_term common_difference num_terms
         in case compute_statistics sequence of
              Inl e \<Rightarrow> ErrorOccurred e
            | Inr st \<Rightarrow> Rendered sequence st))"

section \<open>The program in binary64 arithmetic\<close>

subsection \<open>Binary64 values and rounding\<close>

text \<open>
  A \<^verbatim>\<open>float\<close> is a finite binary64 number, given by its value, an infinity or NaN.
  The two zeros are one value here: the operations the program uses (\<^verbatim>\<open>+\<close>, \<^verbatim>\<open>-\<close>,
  \<^verbatim>\<open>*\<close> and \<^verbatim>\<open>==\<close>) cannot tell them apart. Every operation below returns a binary64
  number, since it rounds its exact result with \<open>round_f64\<close>.
\<close>

datatype f64 = Finite rat | PInf | NInf | NaN

text \<open>The exponent of a positive number: the \<open>e\<close> with \<open>2\<^sup>e \<le> x < 2\<^sup>e\<^sup>+\<^sup>1\<close>.\<close>

definition floor_log2 :: "rat \<Rightarrow> int" where
  "floor_log2 x = (if 1 \<le> x then bitlen \<lfloor>x\<rfloor> - 1 else - bitlen (\<lceil>1 / x\<rceil> - 1))"

text \<open>Rounding to the nearest integer, a tie going to the even one.\<close>

definition round_half_even :: "rat \<Rightarrow> int" where
  "round_half_even y =
     (let f = \<lfloor>y\<rfloor>; r = y - of_int f
      in if r < 1 / 2 then f
         else if 1 / 2 < r then f + 1
         else if even f then f else f + 1)"

text \<open>
  The exponent of the last place of the binary64 numbers next to \<open>x\<close>: 53 significant
  bits for a normal number, and \<open>2\<^sup>-\<^sup>1\<^sup>0\<^sup>7\<^sup>4\<close> for the subnormal ones.
\<close>

definition quantum :: "rat \<Rightarrow> int" where
  "quantum x = max (floor_log2 \<bar>x\<bar> - 52) (- 1074)"

text \<open>
  The binary64 number nearest to an exact result. A result that rounds to \<open>2\<^sup>1\<^sup>0\<^sup>2\<^sup>4\<close> or
  beyond overflows to an infinity.
\<close>

definition round_f64 :: "rat \<Rightarrow> f64" where
  "round_f64 x =
     (if x = 0 then Finite 0
      else
        (let q = quantum x;
             r = of_int (round_half_even (x / 2 powi q)) * 2 powi q
         in if 2 ^ 1024 \<le> r then PInf
            else if r \<le> - (2 ^ 1024) then NInf
            else Finite r))"

subsection \<open>The operations of \<^verbatim>\<open>float\<close>\<close>

fun fneg :: "f64 \<Rightarrow> f64" where
  "fneg (Finite x) = Finite (- x)"
| "fneg PInf = NInf"
| "fneg NInf = PInf"
| "fneg NaN = NaN"

text \<open>\<^verbatim>\<open>a + b\<close>: the rounded sum; infinities of opposite sign give NaN.\<close>

fun fadd :: "f64 \<Rightarrow> f64 \<Rightarrow> f64" where
  "fadd (Finite x) (Finite y) = round_f64 (x + y)"
| "fadd NaN b = NaN"
| "fadd a NaN = NaN"
| "fadd PInf NInf = NaN"
| "fadd NInf PInf = NaN"
| "fadd PInf b = PInf"
| "fadd NInf b = NInf"
| "fadd (Finite x) b = b"

text \<open>\<^verbatim>\<open>a - b\<close>.\<close>

definition fsub :: "f64 \<Rightarrow> f64 \<Rightarrow> f64" where
  "fsub a b = fadd a (fneg b)"

fun fsign :: "f64 \<Rightarrow> int" where
  "fsign (Finite x) = (if x = 0 then 0 else if 0 < x then 1 else - 1)"
| "fsign PInf = 1"
| "fsign NInf = - 1"
| "fsign NaN = 0"

text \<open>
  \<^verbatim>\<open>a * b\<close>: the rounded product of two finite numbers. With an infinity or a NaN among
  the factors the result is NaN when a factor is NaN or zero, and the infinity with the
  product of the signs otherwise.
\<close>

fun fmul :: "f64 \<Rightarrow> f64 \<Rightarrow> f64" where
  "fmul (Finite x) (Finite y) = round_f64 (x * y)"
| "fmul a b =
     (let s = fsign a * fsign b
      in if s = 0 then NaN else if 0 < s then PInf else NInf)"

text \<open>
  The conversion of an \<^verbatim>\<open>int\<close> operand of a mixed operation: correctly rounded, and
  \<^verbatim>\<open>OverflowError\<close> when the integer is beyond the range of binary64.
\<close>

definition float_of_int :: "int \<Rightarrow> error + f64" where
  "float_of_int i =
     (case round_f64 (of_int i) of
        PInf \<Rightarrow> Inl OverflowError
      | NInf \<Rightarrow> Inl OverflowError
      | v \<Rightarrow> Inr v)"


subsection \<open>The generator and the two sums in binary64\<close>

text \<open>
  Line 17, \<^verbatim>\<open>term = first_term + (i * common_difference)\<close>, with \<^verbatim>\<open>i\<close> an \<^verbatim>\<open>int\<close> and
  the two parameters \<^verbatim>\<open>float\<close>s: \<^verbatim>\<open>i\<close> is converted, the product is rounded, the sum is
  rounded.
\<close>

fun generate_loop_f64 :: "f64 \<Rightarrow> f64 \<Rightarrow> int list \<Rightarrow> f64 list \<Rightarrow> error + f64 list" where
  "generate_loop_f64 first_term common_difference [] sequence = Inr sequence"
| "generate_loop_f64 first_term common_difference (i # rest) sequence =
     (case float_of_int i of
        Inl e \<Rightarrow> Inl e
      | Inr fi \<Rightarrow>
          (let term = fadd first_term (fmul fi common_difference)
           in generate_loop_f64 first_term common_difference rest (sequence @ [term])))"

definition generate_arithmetic_sequence_f64 :: "f64 \<Rightarrow> f64 \<Rightarrow> int \<Rightarrow> error + f64 list" where
  "generate_arithmetic_sequence_f64 first_term common_difference num_terms =
     generate_loop_f64 first_term common_difference (range_py num_terms) []"



section \<open>The generator on a store of list objects\<close>

text \<open>
  A Python list is an object in the store, and \<^verbatim>\<open>append\<close> changes it in place. The
  store maps the addresses in use to the lists they hold; a new object takes the next
  free address.
\<close>

type_synonym addr = nat

record heap =
  objects :: "addr \<Rightarrow> f64 list option"
  next_free :: addr

text \<open>\<^verbatim>\<open>[]\<close>: a new, empty list object.\<close>

definition new_list :: "heap \<Rightarrow> addr \<times> heap" where
  "new_list h =
     (next_free h,
      h\<lparr>objects := (objects h)(next_free h \<mapsto> []), next_free := Suc (next_free h)\<rparr>)"

text \<open>\<^verbatim>\<open>xs.append(v)\<close> on the object at address \<open>r\<close>.\<close>

definition list_append :: "addr \<Rightarrow> f64 \<Rightarrow> heap \<Rightarrow> heap" where
  "list_append r v h =
     (case objects h r of
        None \<Rightarrow> h
      | Some xs \<Rightarrow> h\<lparr>objects := (objects h)(r \<mapsto> xs @ [v])\<rparr>)"

text \<open>
  The loop of lines 16 to 18 with \<^verbatim>\<open>sequence\<close> a reference into the store. It returns
  the exception that stopped it, if any, and the store it leaves.
\<close>

fun generate_loop_heap :: "f64 \<Rightarrow> f64 \<Rightarrow> int list \<Rightarrow> addr \<Rightarrow> heap \<Rightarrow> error option \<times> heap" where
  "generate_loop_heap first_term common_difference [] sequence h = (None, h)"
| "generate_loop_heap first_term common_difference (i # rest) sequence h =
     (case float_of_int i of
        Inl e \<Rightarrow> (Some e, h)
      | Inr fi \<Rightarrow>
          (let term = fadd first_term (fmul fi common_difference)
           in generate_loop_heap first_term common_difference rest sequence
                (list_append sequence term h)))"

text \<open>
  A call of \<^verbatim>\<open>generate_arithmetic_sequence\<close> in a store: the reference it returns, or
  the exception it raises, and the store after the call.
\<close>

definition generate_call :: "f64 \<Rightarrow> f64 \<Rightarrow> int \<Rightarrow> heap \<Rightarrow> (error + addr) \<times> heap" where
  "generate_call first_term common_difference num_terms h =
     (let (sequence, h1) = new_list h
      in case generate_loop_heap first_term common_difference (range_py num_terms) sequence h1 of
           (Some e, h2) \<Rightarrow> (Inl e, h2)
         | (None, h2) \<Rightarrow> (Inr sequence, h2))"

text \<open>What the caller sees of a call: the exception, or the list the reference holds.\<close>

definition outcome_of :: "(error + addr) \<times> heap \<Rightarrow> error + f64 list option" where
  "outcome_of c =
     (case fst c of
        Inl e \<Rightarrow> Inl e
      | Inr r \<Rightarrow> Inr (objects (snd c) r))"

section \<open>Properties\<close>

subsection \<open>The loop\<close>

lemma generate_loop_append:
  "generate_loop a d is acc = acc @ map (\<lambda>i. a + of_int i * d) is"
  by (induction "is" arbitrary: acc) simp_all

lemma generate_as_map:
  "generate_arithmetic_sequence a d n = map (\<lambda>i. a + of_int i * d) [0..n - 1]"
  by (simp add: generate_arithmetic_sequence_def range_py_def generate_loop_append)

lemma length_generate:
  "length (generate_arithmetic_sequence a d n) = nat n"
  by (simp add: generate_as_map)

lemma nth_generate:
  "k < nat n \<Longrightarrow> generate_arithmetic_sequence a d n ! k = a + of_nat k * d"
  by (simp add: generate_as_map)

subsection \<open>Indexing the generated sequence\<close>

lemma getitem_generate:
  "0 \<le> i \<Longrightarrow> i < n \<Longrightarrow>
     getitem (generate_arithmetic_sequence a d n) i = Inr (a + of_int i * d)"
  by (simp add: getitem_def len_py_def length_generate nth_generate)

lemma getitem_generate_last:
  "1 \<le> n \<Longrightarrow>
     getitem (generate_arithmetic_sequence a d n) (- 1) = Inr (a + of_int (n - 1) * d)"
  by (simp add: getitem_def len_py_def length_generate nth_generate)

subsection \<open>The closed form in exact arithmetic\<close>

lemma sum_formula_generate:
  assumes "1 \<le> n"
  shows "sum_formula (generate_arithmetic_sequence a d n) =
           Inr ((of_int n / 2) * (a + (a + of_int (n - 1) * d)))"
proof -
  have "len_py (generate_arithmetic_sequence a d n) = n"
    using assms by (simp add: len_py_def length_generate)
  moreover have "getitem (generate_arithmetic_sequence a d n) 0 = Inr a"
    using assms getitem_generate [of 0 n a d] by simp
  ultimately show ?thesis
    using assms by (simp add: sum_formula_def getitem_generate_last)
qed

subsection \<open>The guards of \<^verbatim>\<open>main\<close>\<close>

lemma generate_nonpositive: "n \<le> 0 \<Longrightarrow> generate_arithmetic_sequence a d n = []"
  by (simp add: generate_arithmetic_sequence_def range_py_def)

text \<open>
  For a number of terms that passes both guards the \<^verbatim>\<open>try\<close> block raises nothing:
  the \<^verbatim>\<open>except\<close> branch of \<^verbatim>\<open>main\<close> is never taken.
\<close>

lemma main_renders:
  assumes "1 \<le> n" and "n \<le> 1000"
  shows "\<exists>st. main a d n = Rendered (generate_arithmetic_sequence a d n) st"
proof -
  have "getitem (generate_arithmetic_sequence a d n) 0 = Inr a"
    using assms(1) getitem_generate [of 0 n a d] by simp
  then show ?thesis
    using assms
    by (simp add: main_def Let_def compute_statistics_def getitem_generate_last
        sum_formula_generate)
qed

section \<open>Properties of the binary64 model\<close>

subsection \<open>The exponent and the nearest number\<close>

text \<open>
  \<open>floor_log2\<close> is the binary exponent, and a finite result of \<open>round_f64\<close> is within
  half a unit in the last place of the exact value.
\<close>

lemma two_powi_le_one: "k \<le> 0 \<Longrightarrow> (2::rat) powi k \<le> 1"
  by (simp add: power_int_def power_le_one)

lemma floor_log2_less:
  assumes "0 < x" and "x < 2 powi k"
  shows "floor_log2 x < k"
proof (cases "1 \<le> x")
  case True
  then have "(1::rat) < 2 powi k" using assms(2) by simp
  then have k: "0 < k"
    using two_powi_le_one [of k] by (cases "0 < k") simp_all
  then have "x < of_int (2 ^ nat k)"
    using assms(2) by (simp add: power_int_def)
  then have "\<lfloor>x\<rfloor> < 2 ^ nat k"
    by (simp only: floor_less_iff)
  then have "bitlen \<lfloor>x\<rfloor> \<le> k"
    using k by (simp add: bitlen_le_iff_power)
  then show ?thesis
    using True by (simp add: floor_log2_def)
next
  case False
  show ?thesis
  proof (cases "0 < k")
    case True
    have "0 \<le> bitlen (\<lceil>1 / x\<rceil> - 1)" by (rule bitlen_nonneg)
    then show ?thesis using False True by (simp add: floor_log2_def)
  next
    case k: False
    have "x < 1 / 2 ^ nat (- k)"
      using assms(2) k by (simp add: power_int_def not_less field_simps split: if_splits)
    then have "2 ^ nat (- k) < 1 / x"
      using assms(1) by (simp add: field_simps)
    then have "of_int (2 ^ nat (- k)) < 1 / x" by simp
    then have "2 ^ nat (- k) < \<lceil>1 / x\<rceil>"
      by (simp only: less_ceiling_iff)
    moreover have "nat (- k + 1) - 1 = nat (- k)"
      using k by linarith
    ultimately have "2 ^ (nat (- k + 1) - 1) \<le> \<lceil>1 / x\<rceil> - 1"
      by (simp only:)
    then have "- k + 1 \<le> bitlen (\<lceil>1 / x\<rceil> - 1)"
      by (simp only: bitlen_ge_iff_power) simp
    then show ?thesis
      using False by (simp add: floor_log2_def)
  qed
qed


lemma floor_log2_ge:
  assumes "0 < x" and "2 powi k \<le> x"
  shows "k \<le> floor_log2 x"
proof (cases "1 \<le> x")
  case True
  show ?thesis
  proof (cases "0 \<le> k")
    case k: True
    have "of_int (2 ^ nat k) \<le> x"
      using assms(2) k by (simp add: power_int_def)
    then have "2 ^ nat k \<le> \<lfloor>x\<rfloor>"
      by (simp only: le_floor_iff)
    moreover have "nat (k + 1) - 1 = nat k"
      using k by linarith
    ultimately have "2 ^ (nat (k + 1) - 1) \<le> \<lfloor>x\<rfloor>"
      by (simp only:)
    then have "k + 1 \<le> bitlen \<lfloor>x\<rfloor>"
      by (simp only: bitlen_ge_iff_power) simp
    then show ?thesis
      using True by (simp add: floor_log2_def)
  next
    case False
    have "1 \<le> \<lfloor>x\<rfloor>" using True by (simp add: le_floor_iff)
    then have "2 ^ (nat 1 - 1) \<le> \<lfloor>x\<rfloor>" by simp
    then have "1 \<le> bitlen \<lfloor>x\<rfloor>"
      by (simp only: bitlen_ge_iff_power) simp
    then show ?thesis
      using True False by (simp add: floor_log2_def)
  qed
next
  case False
  then have x1: "x < 1" by simp
  have k: "k < 0"
  proof (rule ccontr)
    assume "\<not> k < 0"
    then have "(1::rat) \<le> 2 powi k" by (intro one_le_power_int) simp_all
    with assms(2) x1 show False by simp
  qed
  have "1 / 2 ^ nat (- k) \<le> x"
    using assms(2) k by (simp add: power_int_def field_simps)
  then have "1 / x \<le> 2 ^ nat (- k)"
    using assms(1) by (simp add: field_simps)
  then have "1 / x \<le> of_int (2 ^ nat (- k))" by simp
  then have "\<lceil>1 / x\<rceil> \<le> 2 ^ nat (- k)"
    by (simp only: ceiling_le_iff)
  then have "\<lceil>1 / x\<rceil> - 1 < 2 ^ nat (- k)" by simp
  then have "bitlen (\<lceil>1 / x\<rceil> - 1) \<le> - k"
    using k by (simp add: bitlen_le_iff_power)
  then show ?thesis
    using False by (simp add: floor_log2_def)
qed

lemma floor_log2_eq:
  assumes "2 powi e \<le> x" and "x < 2 powi (e + 1)"
  shows "floor_log2 x = e"
proof -
  have "(0::rat) < 2 powi e" by simp
  from this assms(1) have "0 < x" by (rule less_le_trans)
  then show ?thesis
    using floor_log2_ge [of x e] floor_log2_less [of x "e + 1"] assms by simp
qed

lemma round_half_even_near: "\<bar>of_int (round_half_even y) - y\<bar> \<le> 1 / 2"
proof -
  have "of_int \<lfloor>y\<rfloor> \<le> y" and "y < of_int \<lfloor>y\<rfloor> + 1"
    by linarith+
  then show ?thesis
    by (auto simp add: round_half_even_def Let_def abs_le_iff)
qed

lemma round_f64_near:
  assumes "round_f64 x = Finite r"
  shows "\<bar>r - x\<bar> \<le> 2 powi quantum x / 2"
proof (cases "x = 0")
  case True
  with assms show ?thesis by (simp add: round_f64_def)
next
  case False
  define u :: rat where "u = 2 powi quantum x"
  have u: "0 < u" by (simp add: u_def)
  from assms False have r: "r = of_int (round_half_even (x / u)) * u"
    by (simp add: round_f64_def Let_def u_def split: if_splits)
  have "r - x = (of_int (round_half_even (x / u)) - x / u) * u"
    using u by (simp add: r left_diff_distrib)
  then have "\<bar>r - x\<bar> = \<bar>of_int (round_half_even (x / u)) - x / u\<bar> * u"
    using u by (simp only: abs_mult abs_of_pos)
  also have "\<dots> \<le> 1 / 2 * u"
    using u round_half_even_near [of "x / u"] by (intro mult_right_mono) simp_all
  finally show ?thesis by (simp add: u_def)
qed

subsection \<open>Operations that do not round\<close>

text \<open>
  A number \<open>m \<times> 2\<^sup>e\<close> with \<open>|m| < 2\<^sup>5\<^sup>3\<close>, \<open>e \<ge> -1074\<close> and magnitude below \<open>2\<^sup>1\<^sup>0\<^sup>2\<^sup>4\<close> is a
  binary64 number, and rounding leaves it as it is.
\<close>

lemma round_half_even_of_int: "round_half_even (of_int z) = z"
  by (simp add: round_half_even_def)

lemma quantum_le:
  assumes "x = of_int m * 2 powi e" and "x \<noteq> 0" and "\<bar>m\<bar> < 2 ^ 53" and "- 1074 \<le> e"
  shows "quantum x \<le> e"
proof -
  have "\<bar>x\<bar> = of_int \<bar>m\<bar> * 2 powi e"
    by (simp add: assms(1) abs_mult)
  also have "\<dots> < of_int (2 ^ 53) * 2 powi e"
    using assms(3) by (intro mult_strict_right_mono) (simp_all only: of_int_less_iff zero_less_power_int zero_less_numeral)
  also have "\<dots> = 2 powi (53 + e)"
    by (simp add: power_int_add)
  finally have "floor_log2 \<bar>x\<bar> < 53 + e"
    using assms(2) by (intro floor_log2_less) simp_all
  then show ?thesis
    using assms(4) by (simp add: quantum_def)
qed

lemma round_f64_exact:
  assumes "x = of_int m * 2 powi e" and "\<bar>m\<bar> < 2 ^ 53" and "- 1074 \<le> e"
    and "\<bar>x\<bar> < 2 ^ 1024"
  shows "round_f64 x = Finite x"
proof (cases "x = 0")
  case True
  then show ?thesis by (simp add: round_f64_def)
next
  case False
  define q where "q = quantum x"
  have q: "q \<le> e"
    unfolding q_def using assms(1) False assms(2,3) by (rule quantum_le)
  have "x / 2 powi q = of_int m * 2 powi (e - q)"
    by (simp add: assms(1) power_int_diff)
  also have "\<dots> = of_int (m * 2 ^ nat (e - q))"
    using q by (simp add: power_int_def)
  finally have "of_int (round_half_even (x / 2 powi q)) * 2 powi q = x / 2 powi q * 2 powi q"
    by (simp only: round_half_even_of_int)
  also have "\<dots> = x" by simp
  finally have r: "of_int (round_half_even (x / 2 powi q)) * 2 powi q = x" .
  have "\<not> 2 ^ 1024 \<le> x" and "\<not> x \<le> - (2 ^ 1024)"
    using assms(4) by linarith+
  then show ?thesis
    using False r by (simp add: round_f64_def Let_def flip: q_def)
qed

lemma round_f64_scaled:
  assumes "\<bar>z\<bar> \<le> 2 ^ 53" and "- 1074 \<le> k" and "k \<le> 970"
  shows "round_f64 (of_int z * 2 powi k) = Finite (of_int z * 2 powi k)"
proof -
  have p: "(2::rat) powi k \<le> 2 ^ 970"
    using power_int_increasing [of k 970 "2::rat"] assms(3) by simp
  have p0: "(0::rat) < 2 powi k" by simp
  show ?thesis
  proof (cases "\<bar>z\<bar> < 2 ^ 53")
    case True
    have "\<bar>of_int z * 2 powi k :: rat\<bar> = of_int \<bar>z\<bar> * 2 powi k"
      by (simp add: abs_mult)
    also have "\<dots> \<le> of_int (2 ^ 53) * 2 powi k"
    proof (rule mult_right_mono)
      show "(of_int \<bar>z\<bar> :: rat) \<le> of_int (2 ^ 53)"
        using True by (subst of_int_le_iff) simp
      show "(0::rat) \<le> 2 powi k"
        using p0 by simp
    qed
    also have "\<dots> \<le> of_int (2 ^ 53) * 2 ^ 970"
      using p by (intro mult_left_mono) simp_all
    also have "\<dots> < 2 ^ 1024" by simp
    finally show ?thesis
      using True assms(2) by (intro round_f64_exact [where m = z and e = k]) simp_all
  next
    case False
    then have z: "z = 2 ^ 53 \<or> z = - (2 ^ 53)"
      using assms(1) by linarith
    have e: "(2::rat) ^ 53 * 2 powi k = 2 powi (53 + k)"
      by (simp add: power_int_add)
    have "(2::rat) powi (53 + k) \<le> 2 powi 1023"
      using assms(3) by (intro power_int_increasing) simp_all
    then have b: "(2::rat) powi (53 + k) < 2 ^ 1024" by simp
    from z show ?thesis
    proof
      assume "z = 2 ^ 53"
      then show ?thesis
        using assms(2) b e by (intro round_f64_exact [where m = 1 and e = "53 + k"]) simp_all
    next
      assume "z = - (2 ^ 53)"
      then show ?thesis
        using assms(2) b e by (intro round_f64_exact [where m = "- 1" and e = "53 + k"]) simp_all
    qed
  qed
qed

lemma round_f64_of_int:
  assumes "\<bar>z\<bar> \<le> 2 ^ 53"
  shows "round_f64 (of_int z) = Finite (of_int z)"
  using round_f64_scaled [of z 0] assms by simp


subsection \<open>The generator on inputs that do not round\<close>

lemma float_of_int_exact: "\<bar>i\<bar> \<le> 2 ^ 53 \<Longrightarrow> float_of_int i = Inr (Finite (of_int i))"
  by (simp add: float_of_int_def round_f64_of_int)

lemma fmul_scaled:
  assumes "\<bar>x * y\<bar> \<le> 2 ^ 53" and "- 1074 \<le> k" and "k \<le> 970"
  shows "fmul (Finite (of_int x)) (Finite (of_int y * 2 powi k)) = Finite (of_int (x * y) * 2 powi k)"
  using round_f64_scaled [OF assms] by (simp add: mult.assoc)

lemma fadd_scaled:
  assumes "\<bar>x + y\<bar> \<le> 2 ^ 53" and "- 1074 \<le> k" and "k \<le> 970"
  shows "fadd (Finite (of_int x * 2 powi k)) (Finite (of_int y * 2 powi k)) =
           Finite (of_int (x + y) * 2 powi k)"
  using round_f64_scaled [OF assms] by (simp add: distrib_right)

lemma fsub_scaled:
  assumes "\<bar>x - y\<bar> \<le> 2 ^ 53" and "- 1074 \<le> k" and "k \<le> 970"
  shows "fsub (Finite (of_int x * 2 powi k)) (Finite (of_int y * 2 powi k)) =
           Finite (of_int (x - y) * 2 powi k)"
  using round_f64_scaled [OF assms] by (simp add: fsub_def left_diff_distrib)

lemma term_bounds:
  assumes "0 \<le> (i::int)" and "i < n" and "\<bar>a\<bar> + n * \<bar>d\<bar> \<le> B"
  shows "\<bar>i * d\<bar> \<le> B" and "\<bar>a + i * d\<bar> \<le> B"
proof -
  have "\<bar>i * d\<bar> = i * \<bar>d\<bar>"
    using assms(1) by (simp only: abs_mult abs_of_nonneg)
  also have "\<dots> \<le> n * \<bar>d\<bar>"
    using assms(2) by (intro mult_right_mono) simp_all
  finally have *: "\<bar>i * d\<bar> \<le> n * \<bar>d\<bar>" .
  then show "\<bar>i * d\<bar> \<le> B" using assms(3) by linarith
  have "\<bar>a + i * d\<bar> \<le> \<bar>a\<bar> + \<bar>i * d\<bar>" by (rule abs_triangle_ineq)
  then show "\<bar>a + i * d\<bar> \<le> B" using * assms(3) by linarith
qed

lemma generate_loop_f64_scaled:
  assumes "\<forall>i \<in> set is. 0 \<le> i \<and> i < n" and "n \<le> 2 ^ 53" and "\<bar>a\<bar> + n * \<bar>d\<bar> \<le> 2 ^ 53"
    and "- 1074 \<le> k" and "k \<le> 970"
  shows "generate_loop_f64 (Finite (of_int a * 2 powi k)) (Finite (of_int d * 2 powi k)) is acc =
           Inr (acc @ map (\<lambda>i. Finite (of_int (a + i * d) * 2 powi k)) is)"
  using assms(1)
proof (induction "is" arbitrary: acc)
  case Nil
  show ?case by simp
next
  case (Cons i rest)
  let ?A = "Finite (of_int a * 2 powi k)" and ?D = "Finite (of_int d * 2 powi k)"
  from Cons.prems have i: "0 \<le> i" "i < n" by simp_all
  then have "\<bar>i\<bar> \<le> 2 ^ 53" using assms(2) by linarith
  then have c: "float_of_int i = Inr (Finite (of_int i))" by (rule float_of_int_exact)
  have m: "fmul (Finite (of_int i)) ?D = Finite (of_int (i * d) * 2 powi k)"
    using term_bounds(1) [OF i assms(3)] assms(4,5) by (rule fmul_scaled)
  have p: "fadd ?A (Finite (of_int (i * d) * 2 powi k)) = Finite (of_int (a + i * d) * 2 powi k)"
    using term_bounds(2) [OF i assms(3)] assms(4,5) by (rule fadd_scaled)
  have "generate_loop_f64 ?A ?D (i # rest) acc =
          generate_loop_f64 ?A ?D rest (acc @ [Finite (of_int (a + i * d) * 2 powi k)])"
    by (simp only: generate_loop_f64.simps c sum.case Let_def m p)
  also have "\<dots> = Inr ((acc @ [Finite (of_int (a + i * d) * 2 powi k)]) @
                      map (\<lambda>i. Finite (of_int (a + i * d) * 2 powi k)) rest)"
    using Cons.prems by (intro Cons.IH) simp
  finally show ?case by simp
qed

lemma generate_f64_scaled:
  assumes "n \<le> 2 ^ 53" and "\<bar>a\<bar> + n * \<bar>d\<bar> \<le> 2 ^ 53" and "- 1074 \<le> k" and "k \<le> 970"
  shows "generate_arithmetic_sequence_f64 (Finite (of_int a * 2 powi k)) (Finite (of_int d * 2 powi k)) n =
           Inr (map (\<lambda>i. Finite (of_int (a + i * d) * 2 powi k)) [0..n - 1])"
proof -
  have "\<forall>i \<in> set (range_py n). 0 \<le> i \<and> i < n"
    by (simp add: range_py_def)
  then have "generate_loop_f64 (Finite (of_int a * 2 powi k)) (Finite (of_int d * 2 powi k)) (range_py n) [] =
      Inr ([] @ map (\<lambda>i. Finite (of_int (a + i * d) * 2 powi k)) (range_py n))"
    using assms by (rule generate_loop_f64_scaled)
  then show ?thesis
    by (simp only: generate_arithmetic_sequence_f64_def range_py_def append_Nil)
qed

lemma getitem_map_upto:
  "0 \<le> i \<Longrightarrow> i < n \<Longrightarrow> getitem (map f [0..n - 1]) i = Inr (f i)"
  by (simp add: getitem_def len_py_def)


subsection \<open>The two sums on inputs that do not round\<close>




subsection \<open>Evaluating binary64 operations\<close>

lemma floor_rat_numeral:
  "\<lfloor>numeral a / numeral b :: rat\<rfloor> = numeral a div numeral b"
  "\<lfloor>- (numeral a / numeral b) :: rat\<rfloor> = - numeral a div numeral b"
  "\<lceil>numeral a / numeral b :: rat\<rceil> = - (- numeral a div numeral b)"
  "\<lceil>- (numeral a / numeral b) :: rat\<rceil> = - (numeral a div numeral b)"
  using floor_divide_of_int_eq [of "numeral a" "numeral b", where ?'a = rat]
    floor_divide_of_int_eq [of "- numeral a" "numeral b", where ?'a = rat]
  by (simp_all add: ceiling_def)

lemmas f64_eval = round_f64_def quantum_def floor_log2_def round_half_even_def Let_def
  compute_bitlen power_int_minus floor_rat_numeral

text \<open>
  The binary64 numbers that the literals \<^verbatim>\<open>0.1\<close>, \<^verbatim>\<open>0.2\<close> and \<^verbatim>\<open>-0.3\<close> denote: the
  decimal fractions rounded to nearest.
\<close>

lemma float_literals:
  "round_f64 (1 / 10) = Finite (3602879701896397 / 36028797018963968)"
  "round_f64 (2 / 10) = Finite (3602879701896397 / 18014398509481984)"
  "round_f64 (- (3 / 10)) = Finite (- (5404319552844595 / 18014398509481984))"
  by (simp_all add: f64_eval)

section \<open>Properties of the generator on the store\<close>

lemma list_append_other: "r' \<noteq> r \<Longrightarrow> objects (list_append r v h) r' = objects h r'"
  by (simp add: list_append_def split: option.split)

lemma list_append_next_free: "next_free (list_append r v h) = next_free h"
  by (simp add: list_append_def split: option.split)

lemma list_append_self:
  "objects h r = Some xs \<Longrightarrow> objects (list_append r v h) r = Some (xs @ [v])"
  by (simp add: list_append_def)

lemma generate_loop_heap_frame:
  "r' \<noteq> r \<Longrightarrow> objects (snd (generate_loop_heap a d is r h)) r' = objects h r'"
  by (induction "is" arbitrary: h)
    (simp_all add: list_append_other Let_def split: sum.split del: fadd.simps fmul.simps)

lemma generate_loop_heap_result:
  "objects h r = Some xs \<Longrightarrow>
     (case generate_loop_f64 a d is xs of
        Inl e \<Rightarrow> fst (generate_loop_heap a d is r h) = Some e
      | Inr ys \<Rightarrow> fst (generate_loop_heap a d is r h) = None
                  \<and> objects (snd (generate_loop_heap a d is r h)) r = Some ys)"
proof (induction "is" arbitrary: h xs)
  case Nil
  then show ?case by simp
next
  case (Cons i rest)
  show ?case
  proof (cases "float_of_int i")
    case (Inl e)
    then show ?thesis by simp
  next
    case (Inr fi)
    let ?t = "fadd a (fmul fi d)"
    have "objects (list_append r ?t h) r = Some (xs @ [?t])"
      using Cons.prems by (rule list_append_self)
    from Cons.IH [OF this] show ?thesis
      by (simp add: Inr Let_def split: sum.splits)
  qed
qed

lemma outcome_of_generate_call:
  "outcome_of (generate_call a d n h) =
     (case generate_arithmetic_sequence_f64 a d n of
        Inl e \<Rightarrow> Inl e
      | Inr ys \<Rightarrow> Inr (Some ys))"
proof -
  let ?r = "next_free h"
  let ?h1 = "h\<lparr>objects := (objects h)(?r \<mapsto> []), next_free := Suc ?r\<rparr>"
  have "objects ?h1 ?r = Some []" by simp
  from generate_loop_heap_result [OF this, of a d "range_py n"]
  show ?thesis
    by (auto simp add: outcome_of_def generate_call_def new_list_def
        generate_arithmetic_sequence_f64_def split: sum.splits prod.splits option.splits)
qed

lemma generate_call_frame:
  assumes "r < next_free h"
  shows "objects (snd (generate_call a d n h)) r = objects h r"
proof -
  let ?r = "next_free h"
  let ?h1 = "h\<lparr>objects := (objects h)(?r \<mapsto> []), next_free := Suc ?r\<rparr>"
  have "r \<noteq> ?r" using assms by simp
  then have "objects (snd (generate_loop_heap a d (range_py n) ?r ?h1)) r = objects ?h1 r"
    by (rule generate_loop_heap_frame)
  also have "\<dots> = objects h r" using \<open>r \<noteq> ?r\<close> by simp
  finally show ?thesis
    by (auto simp add: generate_call_def new_list_def split: prod.splits option.splits)
qed

section \<open>The claims of the specification\<close>






text \<open>
  C3. For every number of terms of at least one, the generated sequence has exactly that
  many elements.
\<close>

theorem generate_length:
  "1 \<le> num_terms \<Longrightarrow>
     len_py (generate_arithmetic_sequence first_term common_difference num_terms) = num_terms"
  by (simp add: len_py_def length_generate)

theorem generate_length_witness:
  "(1::int) \<le> 10 \<and> len_py (generate_arithmetic_sequence 1 1 10) = 10"
  using generate_length [of 10 1 1] by simp

text \<open>
  C4. The specification says that the generator fails with an invalid-input error when
  the number of terms is below one. The generator has no such check: for zero terms it
  returns the empty list.
\<close>

theorem generate_zero_terms_returns: "generate_arithmetic_sequence 1 1 0 = []"
  by (simp add: generate_arithmetic_sequence_def range_py_def)

text \<open>
  C4, as the program has it. For a number of terms below one the generator returns the
  empty list and raises nothing; the input is refused by \<^verbatim>\<open>main\<close>, whose guard on
  line 66 reports the error and returns before the generator is called, so that nothing
  is rendered.
\<close>

theorem nonpositive_rejected_by_main:
  "num_terms < 1 \<Longrightarrow>
     generate_arithmetic_sequence first_term common_difference num_terms = [] \<and>
     main first_term common_difference num_terms = NotPositive"
  by (simp add: generate_nonpositive main_def)

theorem nonpositive_rejected_by_main_witness:
  "(0::int) < 1 \<and> generate_arithmetic_sequence 1 1 0 = [] \<and> main 1 1 0 = NotPositive"
  using nonpositive_rejected_by_main [of 0 1 1] by simp

text \<open>
  C5. On a sequence of length zero the statistics fail: the first statement,
  \<^verbatim>\<open>sequence[0]\<close>, raises, so neither the first element, the last element nor the
  closed-form sum is computed. The exception Python raises here is \<^verbatim>\<open>IndexError\<close>.
\<close>

theorem statistics_empty_fails:
  "compute_statistics [] = Inl IndexError \<and> sum_formula [] = Inl IndexError"
  by (simp add: compute_statistics_def sum_formula_def getitem_def len_py_def)

text \<open>
  C6. A call of the generator is pure and deterministic. Run in any two stores, it gives
  the same outcome: the same exception, or a list with the same elements. Run a second
  time with the same inputs in the store the first call left, it gives the same outcome
  again. And it changes no object that was in the store before the call: all it writes
  is the list it has created itself.
\<close>

theorem generate_call_pure:
  "outcome_of (generate_call first_term common_difference num_terms h) =
     outcome_of (generate_call first_term common_difference num_terms h')
   \<and> outcome_of (generate_call first_term common_difference num_terms
        (snd (generate_call first_term common_difference num_terms h))) =
     outcome_of (generate_call first_term common_difference num_terms h)
   \<and> (\<forall>r < next_free h.
        objects (snd (generate_call first_term common_difference num_terms h)) r = objects h r)"
  by (simp add: outcome_of_generate_call generate_call_frame)

theorem generate_call_pure_witness:
  "outcome_of (generate_call (Finite 5) (Finite (- 2)) 4
       \<lparr>objects = (\<lambda>r. None)(0 \<mapsto> [Finite 7]), next_free = 1\<rparr>) =
     outcome_of (generate_call (Finite 5) (Finite (- 2)) 4
       \<lparr>objects = (\<lambda>r. None), next_free = 0\<rparr>)
   \<and> outcome_of (generate_call (Finite 5) (Finite (- 2)) 4
        (snd (generate_call (Finite 5) (Finite (- 2)) 4
           \<lparr>objects = (\<lambda>r. None)(0 \<mapsto> [Finite 7]), next_free = 1\<rparr>))) =
     outcome_of (generate_call (Finite 5) (Finite (- 2)) 4
       \<lparr>objects = (\<lambda>r. None)(0 \<mapsto> [Finite 7]), next_free = 1\<rparr>)
   \<and> (0::nat) < next_free \<lparr>objects = (\<lambda>r. None)(0 \<mapsto> [Finite 7]), next_free = 1\<rparr>
   \<and> objects (snd (generate_call (Finite 5) (Finite (- 2)) 4
           \<lparr>objects = (\<lambda>r. None)(0 \<mapsto> [Finite 7]), next_free = 1\<rparr>)) 0 =
        Some [Finite 7]"
  using generate_call_pure [of "Finite 5" "Finite (- 2)" 4
      "\<lparr>objects = (\<lambda>r. None)(0 \<mapsto> [Finite 7]), next_free = 1\<rparr>"
      "\<lparr>objects = (\<lambda>r. None), next_free = 0\<rparr>"]
  by simp

text \<open>
  C7. The specification says that in a generated sequence of at least two terms every
  element exceeds its predecessor by exactly the common difference. In binary64 it does
  not: with first term \<^verbatim>\<open>0.1\<close>, common difference \<^verbatim>\<open>0.1\<close> and 4 terms the elements are
  \<^verbatim>\<open>0.1\<close>, \<^verbatim>\<open>0.2\<close>, \<^verbatim>\<open>0.30000000000000004\<close> and \<^verbatim>\<open>0.4\<close>, and
  \<^verbatim>\<open>sequence[2] - sequence[1]\<close> is \<^verbatim>\<open>0.10000000000000003\<close>, which is not \<^verbatim>\<open>0.1\<close>.
\<close>

theorem consecutive_difference_rounds:
  "generate_arithmetic_sequence_f64
     (Finite (3602879701896397 / 36028797018963968))
     (Finite (3602879701896397 / 36028797018963968)) 4 =
   Inr [Finite (3602879701896397 / 36028797018963968),
        Finite (3602879701896397 / 18014398509481984),
        Finite (1351079888211149 / 4503599627370496),
        Finite (3602879701896397 / 9007199254740992)]
  \<and> getitem [Finite (3602879701896397 / 36028797018963968),
        Finite (3602879701896397 / 18014398509481984),
        Finite (1351079888211149 / 4503599627370496),
        Finite (3602879701896397 / 9007199254740992)] 1
       = Inr (Finite (3602879701896397 / 18014398509481984))
  \<and> getitem [Finite (3602879701896397 / 36028797018963968),
        Finite (3602879701896397 / 18014398509481984),
        Finite (1351079888211149 / 4503599627370496),
        Finite (3602879701896397 / 9007199254740992)] (1 + 1)
       = Inr (Finite (1351079888211149 / 4503599627370496))
  \<and> fsub (Finite (1351079888211149 / 4503599627370496))
          (Finite (3602879701896397 / 18014398509481984))
       = Finite (1801439850948199 / 18014398509481984)
  \<and> Finite (1801439850948199 / 18014398509481984)
       \<noteq> Finite (3602879701896397 / 36028797018963968)"
  by (simp add: generate_arithmetic_sequence_f64_def range_py_def upto_rec1 float_of_int_def
      getitem_def len_py_def fsub_def f64_eval)

text \<open>
  C7, as the program has it. When the first term is \<open>a \<times> 2\<^sup>k\<close> and the common difference
  \<open>d \<times> 2\<^sup>k\<close> for integers \<open>a\<close>, \<open>d\<close> and \<open>k\<close>, with \<open>num_terms \<le> 2\<^sup>5\<^sup>3\<close>,
  \<open>|a| + num_terms \<times> |d| \<le> 2\<^sup>5\<^sup>3\<close> and \<open>-1074 \<le> k \<le> 970\<close>, no operation rounds, and for every
  \<open>i\<close> with \<open>0 \<le> i < num_terms - 1\<close> both reads succeed and
  \<open>sequence[i + 1] - sequence[i]\<close> is exactly the common difference.
\<close>

theorem consecutive_difference_without_rounding:
  assumes "0 \<le> i" and "i + 1 < num_terms" and "num_terms \<le> 2 ^ 53"
    and "\<bar>a\<bar> + num_terms * \<bar>d\<bar> \<le> 2 ^ 53" and "- 1074 \<le> k" and "k \<le> 970"
  shows "\<exists>s x y.
      generate_arithmetic_sequence_f64 (Finite (of_int a * 2 powi k)) (Finite (of_int d * 2 powi k))
        num_terms = Inr s
    \<and> getitem s i = Inr x \<and> getitem s (i + 1) = Inr y
    \<and> fsub y x = Finite (of_int d * 2 powi k)"
proof -
  let ?f = "\<lambda>i. Finite (of_int (a + i * d) * 2 powi k)"
  have g: "generate_arithmetic_sequence_f64 (Finite (of_int a * 2 powi k)) (Finite (of_int d * 2 powi k))
             num_terms = Inr (map ?f [0..num_terms - 1])"
    using assms(3-6) by (rule generate_f64_scaled)
  have x: "getitem (map ?f [0..num_terms - 1]) i = Inr (?f i)"
    using assms(1,2) by (intro getitem_map_upto) simp_all
  have y: "getitem (map ?f [0..num_terms - 1]) (i + 1) = Inr (?f (i + 1))"
    using assms(1,2) by (intro getitem_map_upto) simp_all
  have "\<bar>d\<bar> \<le> num_terms * \<bar>d\<bar>"
    using assms(1,2) by (simp add: mult_le_cancel_right1)
  then have "\<bar>(a + (i + 1) * d) - (a + i * d)\<bar> \<le> 2 ^ 53"
    using assms(4) by (simp add: algebra_simps)
  then have "fsub (?f (i + 1)) (?f i) = Finite (of_int ((a + (i + 1) * d) - (a + i * d)) * 2 powi k)"
    using assms(5,6) by (rule fsub_scaled)
  also have "(a + (i + 1) * d) - (a + i * d) = d"
    by (simp add: algebra_simps)
  finally show ?thesis
    using g x y by blast
qed

theorem consecutive_difference_without_rounding_witness:
  "(0::int) \<le> 1 \<and> (1::int) + 1 < 3 \<and> (3::int) \<le> 2 ^ 53 \<and> \<bar>0::int\<bar> + 3 * \<bar>1\<bar> \<le> 2 ^ 53
   \<and> (- 1074::int) \<le> - 1 \<and> (- 1::int) \<le> 970 \<and>
   (\<exists>s x y.
      generate_arithmetic_sequence_f64 (Finite (of_int 0 * 2 powi (- 1))) (Finite (of_int 1 * 2 powi (- 1)))
        3 = Inr s
    \<and> getitem s 1 = Inr x \<and> getitem s (1 + 1) = Inr y
    \<and> fsub y x = Finite (of_int 1 * 2 powi (- 1)))"
  using consecutive_difference_without_rounding [of 1 3 0 1 "- 1"] by simp

text \<open>
  C8. With first term 1, common difference 1 and 10 terms the generator returns the
  numbers from 1 to 10; their direct sum is 55 and the closed form gives 55.
\<close>

theorem generate_one_to_ten:
  "generate_arithmetic_sequence 1 1 10 = [1, 2, 3, 4, 5, 6, 7, 8, 9, 10] \<and>
   sum_direct (generate_arithmetic_sequence 1 1 10) = 55 \<and>
   sum_formula (generate_arithmetic_sequence 1 1 10) = Inr 55"
  by (simp add: generate_arithmetic_sequence_def range_py_def upto_rec1
      sum_direct_def sum_py_def sum_formula_def getitem_def len_py_def)

text \<open>
  C9. With first term 5, common difference -2 and 4 terms the generator returns
  5, 3, 1, -1; the sum of these is 8, by addition and by the closed form.
\<close>

theorem generate_five_down:
  "generate_arithmetic_sequence 5 (- 2) 4 = [5, 3, 1, - 1] \<and>
   sum_direct (generate_arithmetic_sequence 5 (- 2) 4) = 8 \<and>
   sum_formula (generate_arithmetic_sequence 5 (- 2) 4) = Inr 8"
  by (simp add: generate_arithmetic_sequence_def range_py_def upto_rec1
      sum_direct_def sum_py_def sum_formula_def getitem_def len_py_def)

text \<open>
  C10. The generator returns for every integer number of terms, and for every number of
  terms that is zero or negative the result is the empty list: \<^verbatim>\<open>range\<close> is empty and
  the loop body never runs.
\<close>

theorem generate_total_nonpositive:
  "num_terms \<le> 0 \<Longrightarrow>
     generate_arithmetic_sequence first_term common_difference num_terms = []"
  by (rule generate_nonpositive)

theorem generate_total_nonpositive_witness:
  "(- 3::int) \<le> 0 \<and> generate_arithmetic_sequence 1 1 (- 3) = []"
  using generate_total_nonpositive [of "- 3" 1 1] by simp

end
